theory Spec2Isabelle
  imports Complex_Main "HOL-Library.Char_ord" "HOL-Library.List_Lexorder"
begin

unbundle bit_operations_syntax

section \<open>The graphics factory of ezdxf (\<^verbatim>\<open>ezdxf/graphicsfactory2.py\<close>)\<close>

text \<open>
  \<^verbatim>\<open>CreatorInterface\<close> is a facade: each \<^verbatim>\<open>add_*\<close> method checks the DXF version,
  assembles a dictionary of DXF attributes and hands it to collaborators (the entity
  factory of the document, the methods of the created entity, the block table).
  The embedding keeps
  \<^item> the dictionaries as objects of an explicit store (\<open>heap\<close>), because the methods
    copy and then mutate them;
  \<^item> the calls sent to the collaborators as a chronological \<open>trace\<close>;
  \<^item> exceptions as the left injection of a sum; the state that an exception leaves
    behind is returned with it, as Python keeps every effect that happened before the
    \<^verbatim>\<open>raise\<close>.
  Python floats are idealised as real numbers.
\<close>

subsection \<open>Values\<close>

text \<open>
  A \<^verbatim>\<open>Vertex\<close> is a tuple \<^verbatim>\<open>(x, y)\<close>, a tuple \<^verbatim>\<open>(x, y, z)\<close> or a \<^verbatim>\<open>Vector\<close> object.
\<close>

datatype vertex = Tuple2 real real | Tuple3 real real real | Vec3 real real real

text \<open>
  The Python values that travel through the factory. \<open>VAttr obj name\<close> stands for an
  attribute read from an object of a collaborator (\<^verbatim>\<open>image.dxf.handle\<close>,
  \<^verbatim>\<open>autoblock.name\<close>), which this layer only forwards.
\<close>

datatype val =
    VNone
  | VBool bool
  | VInt int
  | VFloat real
  | VStr string
  | VVertex vertex
  | VList "val list"
  | VAttr nat string

type_synonym attribs = "string \<rightharpoonup> val"

datatype error = DXFValueError | DXFVersionError | KeyError | TypeError | ZeroDivisionError

subsection \<open>Constants of \<^verbatim>\<open>ezdxf.lldxf.const\<close>\<close>

text \<open>
  Modelled from the spec: the module \<^verbatim>\<open>ezdxf.lldxf.const\<close> is not part of the sources at
  hand. The spec orders the format versions R12 < R2000 < R2007 and names the mode bits
  of a POLYLINE and the type flags of a DIMENSION; the values are those of the DXF
  format (\<^verbatim>\<open>add_ellipse\<close> spells the R2000 version string out). The properties below
  hold for every value of the flags; of the version strings they use \<open>DXF2000 \<le> DXF2007\<close>.
\<close>

definition DXF2000 :: string where "DXF2000 = ''AC1015''"
definition DXF2007 :: string where "DXF2007 = ''AC1021''"

definition POLYLINE_3D_POLYLINE :: int where "POLYLINE_3D_POLYLINE = 8"
definition POLYLINE_3D_POLYMESH :: int where "POLYLINE_3D_POLYMESH = 16"
definition POLYLINE_POLYFACE :: int where "POLYLINE_POLYFACE = 64"

definition DIM_LINEAR :: int where "DIM_LINEAR = 0"
definition DIM_BLOCK_EXCLUSIVE :: int where "DIM_BLOCK_EXCLUSIVE = 32"

subsection \<open>Vectors of \<^verbatim>\<open>ezdxf.math\<close>\<close>

text \<open>
  Modelled from the spec: the class \<^verbatim>\<open>Vector\<close> is not part of the sources at hand. The
  spec describes an immutable 3-component vector with subtraction, angle, orthogonal
  and normalisation to a length; a 2D point has \<open>z = 0\<close>; the orthogonal of \<open>(10, 0, 0)\<close>
  normalised to length 5 is \<open>(0, 5, 0)\<close>. Normalising divides by the magnitude, which
  raises \<^verbatim>\<open>ZeroDivisionError\<close> for the null vector.
\<close>

fun Vector :: "vertex \<Rightarrow> vertex" where
  "Vector (Tuple2 x y) = Vec3 x y 0"
| "Vector (Tuple3 x y z) = Vec3 x y z"
| "Vector (Vec3 x y z) = Vec3 x y z"

fun vx :: "vertex \<Rightarrow> real" where
  "vx (Tuple2 x y) = x" | "vx (Tuple3 x y z) = x" | "vx (Vec3 x y z) = x"

fun vy :: "vertex \<Rightarrow> real" where
  "vy (Tuple2 x y) = y" | "vy (Tuple3 x y z) = y" | "vy (Vec3 x y z) = y"

fun vz :: "vertex \<Rightarrow> real" where
  "vz (Tuple2 x y) = 0" | "vz (Tuple3 x y z) = z" | "vz (Vec3 x y z) = z"

definition vsub :: "vertex \<Rightarrow> vertex \<Rightarrow> vertex" where
  "vsub a b = Vec3 (vx a - vx b) (vy a - vy b) (vz a - vz b)"

definition magnitude :: "vertex \<Rightarrow> real" where
  "magnitude v = sqrt (vx v * vx v + vy v * vy v + vz v * vz v)"

definition orthogonal :: "vertex \<Rightarrow> vertex" where
  "orthogonal v = Vec3 (- vy v) (vx v) (vz v)"

definition normalize :: "vertex \<Rightarrow> real \<Rightarrow> error + vertex" where
  "normalize v len =
     (if magnitude v = 0 then Inl ZeroDivisionError
      else Inr (Vec3 (vx v * (len / magnitude v)) (vy v * (len / magnitude v))
                     (vz v * (len / magnitude v))))"

definition atan2 :: "real \<Rightarrow> real \<Rightarrow> real" where
  "atan2 y x =
     (if 0 < x then arctan (y / x)
      else if x < 0 \<and> 0 \<le> y then arctan (y / x) + pi
      else if x < 0 then arctan (y / x) - pi
      else if 0 < y then pi / 2
      else if y < 0 then - (pi / 2)
      else 0)"

definition angle_deg :: "vertex \<Rightarrow> real" where
  "angle_deg v = atan2 (vy v) (vx v) * 180 / pi"


subsection \<open>Collaborators and state\<close>

text \<open>
  One entry of the trace per call that leaves this layer. An entity is identified by
  the position of its creation in the trace.
\<close>

datatype event =
    Create_db_entry string attribs
    \<comment> \<open>\<^verbatim>\<open>self.dxffactory.create_db_entry(type_, dxfattribs)\<close>\<close>
  | Invoke nat string "val list"
    \<comment> \<open>\<^verbatim>\<open>obj.method(args)\<close> on a collaborator's object\<close>
  | Set_attr nat string val
    \<comment> \<open>\<^verbatim>\<open>obj.name = value\<close>\<close>
  | Set_item nat nat val
    \<comment> \<open>\<^verbatim>\<open>entity[x] = point\<close>\<close>
  | Update_dxf_attribs nat attribs
    \<comment> \<open>\<^verbatim>\<open>dimline.update_dxf_attribs(dxfattribs)\<close>\<close>
  | New_DimStyleOverride nat "attribs option"
    \<comment> \<open>\<^verbatim>\<open>DimStyleOverride(dimline, override=override)\<close>\<close>
  | New_anonymous_block
    \<comment> \<open>\<^verbatim>\<open>self.doc.blocks.new_anonymous_block()\<close>\<close>
  | Block_add_blockref nat val vertex
    \<comment> \<open>\<^verbatim>\<open>autoblock.add_blockref(name, (0, 0))\<close>\<close>
  | Insert_add_attrib nat val val val attribs
    \<comment> \<open>\<^verbatim>\<open>blockref.add_attrib(tag, text, insert, dxfattribs)\<close>\<close>
  | Add_image_def_reactor val
    \<comment> \<open>\<^verbatim>\<open>self.doc.objects.add_image_def_reactor(image.dxf.handle)\<close>\<close>
  | Append_reactor_handle val val
    \<comment> \<open>\<^verbatim>\<open>image_def.append_reactor_handle(reactor_handle)\<close>, the definition given by its handle\<close>

text \<open>
  The state seen by a \<^verbatim>\<open>CreatorInterface\<close>: the DXF version of the document, the block
  definitions of the document (a block name gives the attribute sets that
  \<^verbatim>\<open>attdef.dxfattribs()\<close> returns for the ATTDEF entities of the block, in order), the
  store of dictionary objects and the trace.
\<close>

record layout =
  dxfversion :: string
  blocks :: "string \<rightharpoonup> attribs list"
  heap :: "attribs list"
  trace :: "event list"

type_synonym 'a result = "(error + 'a) \<times> layout"

definition emit :: "event \<Rightarrow> layout \<Rightarrow> nat \<times> layout" where
  "emit e s = (length (trace s), s\<lparr>trace := trace s @ [e]\<rparr>)"

subsection \<open>Dictionary objects\<close>

text \<open>
  A dictionary object is an index into \<open>heap\<close>. A reference outside the store cannot
  occur in Python; \<open>deref\<close> reads it as the empty dictionary.
\<close>

definition deref :: "layout \<Rightarrow> nat \<Rightarrow> attribs" where
  "deref s a = (if a < length (heap s) then heap s ! a else Map.empty)"

text \<open>
  \<^verbatim>\<open>dict(dxfattribs or {})\<close>: a new dictionary object with the entries of the argument
  (none for \<^verbatim>\<open>None\<close>; an empty argument is falsy and is replaced by \<^verbatim>\<open>{}\<close>, with the
  same entries). \<open>or_empty\<close> gives the entries of \<^verbatim>\<open>dxfattribs or {}\<close>.
\<close>

definition or_empty :: "layout \<Rightarrow> nat option \<Rightarrow> attribs" where
  "or_empty s dxfattribs = (case dxfattribs of None \<Rightarrow> Map.empty | Some a \<Rightarrow> deref s a)"

definition dict_copy :: "nat option \<Rightarrow> layout \<Rightarrow> nat \<times> layout" where
  "dict_copy dxfattribs s =
     (let entries = or_empty s dxfattribs
      in (length (heap s), s\<lparr>heap := heap s @ [entries]\<rparr>))"

text \<open>A dictionary literal \<^verbatim>\<open>{...}\<close>.\<close>

definition dict_new :: "attribs \<Rightarrow> layout \<Rightarrow> nat \<times> layout" where
  "dict_new entries s = (length (heap s), s\<lparr>heap := heap s @ [entries]\<rparr>)"

text \<open>\<^verbatim>\<open>d[key] = value\<close>\<close>

definition setitem :: "nat \<Rightarrow> string \<Rightarrow> val \<Rightarrow> layout \<Rightarrow> layout" where
  "setitem d key v s = s\<lparr>heap := (heap s)[d := (deref s d)(key \<mapsto> v)]\<rparr>"

text \<open>\<^verbatim>\<open>d.get(key, default)\<close>\<close>

definition getitem :: "nat \<Rightarrow> string \<Rightarrow> val \<Rightarrow> layout \<Rightarrow> val" where
  "getitem d key dflt s = (case deref s d key of None \<Rightarrow> dflt | Some v \<Rightarrow> v)"

text \<open>\<^verbatim>\<open>d.pop(key, default)\<close>\<close>

definition pop :: "nat \<Rightarrow> string \<Rightarrow> val \<Rightarrow> layout \<Rightarrow> val \<times> layout" where
  "pop d key dflt s =
     (getitem d key dflt s, s\<lparr>heap := (heap s)[d := (deref s d)(key := None)]\<rparr>)"

text \<open>\<^verbatim>\<open>d.setdefault(key, value)\<close>\<close>

definition setdefault :: "nat \<Rightarrow> string \<Rightarrow> val \<Rightarrow> layout \<Rightarrow> layout" where
  "setdefault d key v s = (case deref s d key of None \<Rightarrow> setitem d key v s | Some _ \<Rightarrow> s)"

subsection \<open>Entity creation\<close>

text \<open>
  \<^verbatim>\<open>new_entity\<close> sends the dictionary to the entity factory of the document;
  \<^verbatim>\<open>add_entity\<close> is \<^verbatim>\<open>pass\<close> in this class.
\<close>

definition new_entity :: "string \<Rightarrow> nat \<Rightarrow> layout \<Rightarrow> nat \<times> layout" where
  "new_entity type' dxfattribs s = emit (Create_db_entry type' (deref s dxfattribs)) s"


subsection \<open>Quadrilaterals: SOLID, TRACE, 3DFACE\<close>

text \<open>
  \<^verbatim>\<open>_four_points\<close> is a generator: its body, the check of the length included, runs when
  the caller asks for the first item. It either raises before yielding anything or
  yields every item.
\<close>

definition four_points :: "'a list \<Rightarrow> error + 'a list" where
  "four_points vertices =
     (if length vertices \<noteq> 3 \<and> length vertices \<noteq> 4 then Inl DXFValueError
      else Inr (vertices @ (if length vertices = 3 then [last vertices] else [])))"

text \<open>\<^verbatim>\<open>for x, point in enumerate(...): entity[x] = point\<close>\<close>

fun set_points :: "nat \<Rightarrow> nat \<Rightarrow> val list \<Rightarrow> layout \<Rightarrow> layout" where
  "set_points entity x [] s = s"
| "set_points entity x (point # ps) s =
     set_points entity (Suc x) ps (snd (emit (Set_item entity x point) s))"

definition add_quadrilateral :: "string \<Rightarrow> val list \<Rightarrow> nat option \<Rightarrow> layout \<Rightarrow> nat result" where
  "add_quadrilateral type' points dxfattribs s =
     (let (d, s1) = dict_copy dxfattribs s;
          (entity, s2) = new_entity type' d s1
      in case four_points points of
           Inl e \<Rightarrow> (Inl e, s2)
         | Inr ps \<Rightarrow> (Inr entity, set_points entity 0 ps s2))"

definition add_solid :: "val list \<Rightarrow> nat option \<Rightarrow> layout \<Rightarrow> nat result" where
  "add_solid points dxfattribs s = add_quadrilateral ''SOLID'' points dxfattribs s"

definition add_trace :: "val list \<Rightarrow> nat option \<Rightarrow> layout \<Rightarrow> nat result" where
  "add_trace points dxfattribs s = add_quadrilateral ''TRACE'' points dxfattribs s"

definition add_3dface :: "val list \<Rightarrow> nat option \<Rightarrow> layout \<Rightarrow> nat result" where
  "add_3dface points dxfattribs s = add_quadrilateral ''3DFACE'' points dxfattribs s"

subsection \<open>POINT, LINE, CIRCLE, ELLIPSE, ARC\<close>




definition add_ellipse ::
  "val \<Rightarrow> val \<Rightarrow> real \<Rightarrow> val \<Rightarrow> val \<Rightarrow> nat option \<Rightarrow> layout \<Rightarrow> nat result" where
  "add_ellipse center major_axis ratio start_param end_param dxfattribs s =
     (if dxfversion s < ''AC1015'' then (Inl DXFVersionError, s)
      else if ratio > 1 then (Inl DXFValueError, s)
      else
        let (d, s1) = dict_copy dxfattribs s;
            s2 = setitem d ''center'' center s1;
            s3 = setitem d ''major_axis'' major_axis s2;
            s4 = setitem d ''ratio'' (VFloat ratio) s3;
            s5 = setitem d ''start_param'' start_param s4;
            s6 = setitem d ''end_param'' end_param s5;
            (entity, s7) = new_entity ''ELLIPSE'' d s6
        in (Inr entity, s7))"


subsection \<open>TEXT, INSERT, ATTRIB, SHAPE\<close>


definition add_blockref :: "val \<Rightarrow> val \<Rightarrow> nat option \<Rightarrow> layout \<Rightarrow> nat result" where
  "add_blockref name insert' dxfattribs s =
     (let (d, s1) = dict_copy dxfattribs s;
          s2 = setitem d ''name'' name s1;
          s3 = setitem d ''insert'' insert' s2;
          (blockref, s4) = new_entity ''INSERT'' d s3
      in (Inr blockref, s4))"



subsection \<open>Auto block references\<close>

text \<open>
  \<^verbatim>\<open>get_dxfattribs\<close> and \<^verbatim>\<open>unpack\<close> work on the dictionary that \<^verbatim>\<open>attdef.dxfattribs()\<close>
  returned, which no other part of this layer holds: it is modelled as a value.
  \<^verbatim>\<open>pop('tag')\<close> and \<^verbatim>\<open>pop('insert')\<close> have no default and raise \<^verbatim>\<open>KeyError\<close>.
\<close>

definition get_dxfattribs :: "attribs \<Rightarrow> attribs" where
  "get_dxfattribs attdef = attdef(''prompt'' := None, ''handle'' := None)"

text \<open>
  \<^verbatim>\<open>values.get(tag, "")\<close>: the keys of \<^verbatim>\<open>values\<close> are strings. A tag that is a list is
  unhashable and the lookup raises \<^verbatim>\<open>TypeError\<close>; a hashable tag that is no string is
  not found.
\<close>

definition values_get :: "(string \<rightharpoonup> string) \<Rightarrow> val \<Rightarrow> error + val" where
  "values_get values tag =
     (case tag of
        VStr t \<Rightarrow> Inr (case values t of None \<Rightarrow> VStr [] | Some v \<Rightarrow> VStr v)
      | VList l \<Rightarrow> Inl TypeError
      | _ \<Rightarrow> Inr (VStr []))"

definition unpack ::
  "(string \<rightharpoonup> string) \<Rightarrow> attribs \<Rightarrow> error + (val \<times> val \<times> val \<times> attribs)" where
  "unpack values dxfattribs =
     (case dxfattribs ''tag'' of
        None \<Rightarrow> Inl KeyError
      | Some tag \<Rightarrow>
          (case values_get values tag of
             Inl e \<Rightarrow> Inl e
           | Inr text \<Rightarrow>
               (case dxfattribs ''insert'' of
                  None \<Rightarrow> Inl KeyError
                | Some insert' \<Rightarrow>
                    Inr (tag, text, insert', dxfattribs(''tag'' := None, ''insert'' := None)))))"

fun autofill :: "(string \<rightharpoonup> string) \<Rightarrow> nat \<Rightarrow> attribs list \<Rightarrow> layout \<Rightarrow> unit result" where
  "autofill values blockref [] s = (Inr (), s)"
| "autofill values blockref (attdef # attdefs) s =
     (case unpack values (get_dxfattribs attdef) of
        Inl e \<Rightarrow> (Inl e, s)
      | Inr (tag, text, insert', dxfattribs) \<Rightarrow>
          autofill values blockref attdefs
            (snd (emit (Insert_add_attrib blockref tag text insert' dxfattribs) s)))"

definition add_auto_blockref ::
  "string \<Rightarrow> val \<Rightarrow> (string \<rightharpoonup> string) \<Rightarrow> nat option \<Rightarrow> layout \<Rightarrow> nat result" where
  "add_auto_blockref name insert' values dxfattribs s =
     (let (d, s1) = dict_copy dxfattribs s;
          (autoblock, s2) = emit New_anonymous_block s1;
          (blockref, s3) = emit (Block_add_blockref autoblock (VStr name) (Tuple2 0 0)) s2
      in case blocks s3 name of
           None \<Rightarrow> (Inl KeyError, s3)
         | Some blockdef \<Rightarrow>
             (case autofill values blockref blockdef s3 of
                (Inl e, s4) \<Rightarrow> (Inl e, s4)
              | (Inr _, s4) \<Rightarrow> add_blockref (VAttr autoblock ''name'') insert' (Some d) s4))"

subsection \<open>POLYLINE\<close>

text \<open>\<^verbatim>\<open>value | const\<close> on Python integers; a value of another type raises \<^verbatim>\<open>TypeError\<close>.\<close>

definition int_or :: "val \<Rightarrow> int \<Rightarrow> error + val" where
  "int_or v c =
     (case v of
        VInt i \<Rightarrow> Inr (VInt (i OR c))
      | VBool b \<Rightarrow> Inr (VInt (of_bool b OR c))
      | _ \<Rightarrow> Inl TypeError)"

definition add_polyline2d :: "val list \<Rightarrow> nat option \<Rightarrow> layout \<Rightarrow> nat result" where
  "add_polyline2d points dxfattribs s =
     (let (d, s1) = dict_copy dxfattribs s;
          (closed, s2) = pop d ''closed'' (VBool False) s1;
          (polyline, s3) = new_entity ''POLYLINE'' d s2;
          (_, s4) = emit (Invoke polyline ''close'' [closed]) s3;
          (_, s5) = emit (Invoke polyline ''append_vertices'' [VList points]) s4
      in (Inr polyline, s5))"

definition add_polyline3d :: "val list \<Rightarrow> nat option \<Rightarrow> layout \<Rightarrow> nat result" where
  "add_polyline3d points dxfattribs s =
     (let (d, s1) = dict_copy dxfattribs s
      in case int_or (getitem d ''flags'' (VInt 0) s1) POLYLINE_3D_POLYLINE of
           Inl e \<Rightarrow> (Inl e, s1)
         | Inr flags \<Rightarrow> add_polyline2d points (Some d) (setitem d ''flags'' flags s1))"

text \<open>\<^verbatim>\<open>polymesh.cast()\<close> returns a view of the same entity.\<close>

definition add_polymesh :: "int \<times> int \<Rightarrow> nat option \<Rightarrow> layout \<Rightarrow> nat result" where
  "add_polymesh size' dxfattribs s =
     (let (d, s1) = dict_copy dxfattribs s
      in case int_or (getitem d ''flags'' (VInt 0) s1) POLYLINE_3D_POLYMESH of
           Inl e \<Rightarrow> (Inl e, s1)
         | Inr flags \<Rightarrow>
             (let s2 = setitem d ''flags'' flags s1;
                  m_size = max (fst size') 2;
                  n_size = max (snd size') 2;
                  s3 = setitem d ''m_count'' (VInt m_size) s2;
                  s4 = setitem d ''n_count'' (VInt n_size) s3;
                  (m_close, s5) = pop d ''m_close'' (VBool False) s4;
                  (n_close, s6) = pop d ''n_close'' (VBool False) s5;
                  (polymesh, s7) = new_entity ''POLYLINE'' d s6;
                  points = replicate (nat (m_size * n_size)) (VVertex (Tuple3 0 0 0));
                  (_, s8) = emit (Invoke polymesh ''append_vertices'' [VList points]) s7;
                  (_, s9) = emit (Invoke polymesh ''close'' [m_close, n_close]) s8;
                  (_, s10) = emit (Invoke polymesh ''cast'' []) s9
              in (Inr polymesh, s10)))"

definition add_polyface :: "nat option \<Rightarrow> layout \<Rightarrow> nat result" where
  "add_polyface dxfattribs s =
     (let (d, s1) = dict_copy dxfattribs s
      in case int_or (getitem d ''flags'' (VInt 0) s1) POLYLINE_POLYFACE of
           Inl e \<Rightarrow> (Inl e, s1)
         | Inr flags \<Rightarrow>
             (let s2 = setitem d ''flags'' flags s1;
                  (m_close, s3) = pop d ''m_close'' (VBool False) s2;
                  (n_close, s4) = pop d ''n_close'' (VBool False) s3;
                  (polyface, s5) = new_entity ''POLYLINE'' d s4;
                  (_, s6) = emit (Invoke polyface ''close'' [m_close, n_close]) s5;
                  (_, s7) = emit (Invoke polyface ''cast'' []) s6
              in (Inr polyface, s7)))"

subsection \<open>Entities of DXF R2000: LWPOLYLINE, MTEXT, RAY, XLINE, SPLINE\<close>














subsection \<open>ACIS entities: BODY, REGION, 3DSOLID and the SURFACE family\<close>

definition add_acis_entiy :: "string \<Rightarrow> val option \<Rightarrow> nat option \<Rightarrow> layout \<Rightarrow> nat result" where
  "add_acis_entiy name acis_data dxfattribs s =
     (if dxfversion s < DXF2000 then (Inl DXFVersionError, s)
      else
        let (d, s1) = dict_copy dxfattribs s;
            (entity, s2) = new_entity name d s1
        in case acis_data of
             None \<Rightarrow> (Inr entity, s2)
           | Some a \<Rightarrow> (Inr entity, snd (emit (Invoke entity ''set_acis_data'' [a]) s2)))"




definition add_surface :: "val option \<Rightarrow> nat option \<Rightarrow> layout \<Rightarrow> nat result" where
  "add_surface acis_data dxfattribs s =
     (if dxfversion s < DXF2007 then (Inl DXFVersionError, s)
      else add_acis_entiy ''SURFACE'' acis_data dxfattribs s)"

definition add_extruded_surface :: "val option \<Rightarrow> nat option \<Rightarrow> layout \<Rightarrow> nat result" where
  "add_extruded_surface acis_data dxfattribs s =
     (if dxfversion s < DXF2007 then (Inl DXFVersionError, s)
      else add_acis_entiy ''EXTRUDEDSURFACE'' acis_data dxfattribs s)"

definition add_lofted_surface :: "val option \<Rightarrow> nat option \<Rightarrow> layout \<Rightarrow> nat result" where
  "add_lofted_surface acis_data dxfattribs s =
     (if dxfversion s < DXF2007 then (Inl DXFVersionError, s)
      else add_acis_entiy ''LOFTEDSURFACE'' acis_data dxfattribs s)"

definition add_revolved_surface :: "val option \<Rightarrow> nat option \<Rightarrow> layout \<Rightarrow> nat result" where
  "add_revolved_surface acis_data dxfattribs s =
     (if dxfversion s < DXF2007 then (Inl DXFVersionError, s)
      else add_acis_entiy ''REVOLVEDSURFACE'' acis_data dxfattribs s)"

definition add_swept_surface :: "val option \<Rightarrow> nat option \<Rightarrow> layout \<Rightarrow> nat result" where
  "add_swept_surface acis_data dxfattribs s =
     (if dxfversion s < DXF2007 then (Inl DXFVersionError, s)
      else add_acis_entiy ''SWEPTSURFACE'' acis_data dxfattribs s)"

subsection \<open>HATCH, MESH, IMAGE, UNDERLAY\<close>









subsection \<open>DIMENSION\<close>

text \<open>
  The dimension entity is created from the literal \<^verbatim>\<open>{'dimtype': ...}\<close>; the attributes
  of the caller, completed by the method, reach it through \<^verbatim>\<open>update_dxf_attribs\<close>. The
  result is the \<^verbatim>\<open>DimStyleOverride\<close> object.
\<close>

definition add_linear_dim ::
  "vertex \<Rightarrow> vertex \<Rightarrow> vertex \<Rightarrow> val option \<Rightarrow> val \<Rightarrow> real \<Rightarrow> real option \<Rightarrow> val \<Rightarrow>
   nat option \<Rightarrow> nat option \<Rightarrow> layout \<Rightarrow> nat result" where
  "add_linear_dim base p1 p2 location text angle text_rotation dimstyle override dxfattribs s =
     (let (type', s1) = dict_new [''dimtype'' \<mapsto> VInt (DIM_LINEAR OR DIM_BLOCK_EXCLUSIVE)] s;
          (dimline, s2) = new_entity ''DIMENSION'' type' s1;
          (d, s3) = dict_copy dxfattribs s2;
          s4 = setitem d ''dimstyle'' dimstyle s3;
          s5 = setitem d ''defpoint'' (VVertex (Vector base)) s4;
          s6 = setitem d ''text'' text s5;
          s7 = setitem d ''defpoint2'' (VVertex (Vector p1)) s6;
          s8 = setitem d ''defpoint3'' (VVertex (Vector p2)) s7;
          s9 = setitem d ''angle'' (VFloat angle) s8;
          s10 = (case text_rotation of
                   None \<Rightarrow> s9
                 | Some r \<Rightarrow> setitem d ''text_rotation'' (VFloat r) s9);
          (_, s11) = emit (Update_dxf_attribs dimline (deref s10 d)) s10;
          (style, s12) = emit (New_DimStyleOverride dimline (map_option (deref s11) override)) s11
      in case location of
           None \<Rightarrow> (Inr style, s12)
         | Some l \<Rightarrow>
             (Inr style, snd (emit (Invoke style ''set_location'' [l, VBool False, VBool False]) s12)))"

definition add_aligned_dim ::
  "vertex \<Rightarrow> vertex \<Rightarrow> real \<Rightarrow> val \<Rightarrow> val \<Rightarrow> nat option \<Rightarrow> nat option \<Rightarrow> layout \<Rightarrow> nat result" where
  "add_aligned_dim p1 p2 distance text dimstyle override dxfattribs s =
     (let p1 = Vector p1;
          p2 = Vector p2;
          direction = vsub p2 p1;
          angle = angle_deg direction
      in case normalize (orthogonal direction) distance of
           Inl e \<Rightarrow> (Inl e, s)
         | Inr base \<Rightarrow>
             add_linear_dim base p1 p2 None text angle None dimstyle override dxfattribs s)"







subsection \<open>Methods that forward to \<^verbatim>\<open>ezdxf.render\<close>\<close>






subsection \<open>The calls of the factory\<close>




subsection \<open>Reading the trace\<close>

text \<open>The layout of a new document: no block, no dictionary, no call yet.\<close>

definition new_layout :: "string \<Rightarrow> layout" where
  "new_layout version = \<lparr>dxfversion = version, blocks = Map.empty, heap = [], trace = []\<rparr>"

text \<open>The DXF type and the attribute set an entity was created with.\<close>

definition creation :: "layout \<Rightarrow> nat \<Rightarrow> (string \<times> attribs) option" where
  "creation s entity =
     (if entity < length (trace s)
      then (case trace s ! entity of Create_db_entry t d \<Rightarrow> Some (t, d) | _ \<Rightarrow> None)
      else None)"

text \<open>The attribute sets sent by \<^verbatim>\<open>update_dxf_attribs\<close>, each with its entity.\<close>

fun updated :: "event list \<Rightarrow> (nat \<times> attribs) list" where
  "updated [] = []"
| "updated (Update_dxf_attribs entity d # es) = (entity, d) # updated es"
| "updated (_ # es) = updated es"

text \<open>The attributes attached to block references by \<^verbatim>\<open>blockref.add_attrib\<close>.\<close>

fun attribs_added :: "event list \<Rightarrow> (nat \<times> val \<times> val \<times> val \<times> attribs) list" where
  "attribs_added [] = []"
| "attribs_added (Insert_add_attrib blockref tag text ins d # es) =
     (blockref, tag, text, ins, d) # attribs_added es"
| "attribs_added (_ # es) = attribs_added es"

text \<open>
  The \<^verbatim>\<open>dxfattribs\<close> argument of a call is \<^verbatim>\<open>None\<close> or a dictionary that exists when the
  call is made.
\<close>

definition valid_ref :: "layout \<Rightarrow> nat option \<Rightarrow> bool" where
  "valid_ref s r = (case r of None \<Rightarrow> True | Some a \<Rightarrow> a < length (heap s))"

text \<open>The values that \<^verbatim>\<open>|\<close> accepts in \<open>int_or\<close>: Python integers, booleans included.\<close>

fun is_int :: "val \<Rightarrow> bool" where
  "is_int (VInt i) = True"
| "is_int (VBool b) = True"
| "is_int _ = False"

text \<open>
  The attribute that an attribute definition with the string tag \<open>t\<close> and the insert
  point \<open>i\<close> is expected to give on the block reference \<open>blockref\<close>.
\<close>

definition attrib_for ::
  "(string \<rightharpoonup> string) \<Rightarrow> nat \<Rightarrow> attribs \<Rightarrow> nat \<times> val \<times> val \<times> val \<times> attribs" where
  "attrib_for values blockref attdef =
     (blockref, the (attdef ''tag''),
      (case the (attdef ''tag'') of
         VStr t \<Rightarrow> VStr (case values t of None \<Rightarrow> [] | Some v \<Rightarrow> v)
       | _ \<Rightarrow> VStr []),
      the (attdef ''insert''),
      attdef(''prompt'' := None, ''handle'' := None, ''tag'' := None, ''insert'' := None))"

section \<open>Properties\<close>

subsection \<open>Quadrilaterals\<close>

text \<open>
  Claim C3. The normalisation of the points of a quadrilateral maps three points
  \<open>[a, b, c]\<close> to \<open>[a, b, c, c]\<close> (the last point again), leaves four points
  \<open>[a, b, c, d]\<close> as they are, and raises \<^verbatim>\<open>DXFValueError\<close> for every sequence whose
  length is neither 3 nor 4.
\<close>

theorem four_points_normalizes:
  "four_points [a, b, c] = Inr [a, b, c, c] \<and>
   four_points [a, b, c, d] = Inr [a, b, c, d] \<and>
   (length vertices \<noteq> 3 \<and> length vertices \<noteq> 4 \<longrightarrow> four_points vertices = Inl DXFValueError)"
  by (simp add: four_points_def)

theorem four_points_normalizes_witness:
  "four_points [VInt 1, VInt 2, VInt 3] = Inr [VInt 1, VInt 2, VInt 3, VInt 3] \<and>
   four_points [VInt 1, VInt 2, VInt 3, VInt 4] = Inr [VInt 1, VInt 2, VInt 3, VInt 4] \<and>
   length [VInt 1, VInt 2] \<noteq> 3 \<and> length [VInt 1, VInt 2] \<noteq> 4 \<and>
   four_points [VInt 1, VInt 2] = Inl DXFValueError"
  using four_points_normalizes [of "VInt 1" "VInt 2" "VInt 3" "VInt 4" "[VInt 1, VInt 2]"]
  by simp

text \<open>
  Claim C1 asks that a quadrilateral call with a number of points other than 3 or 4
  raises \<^verbatim>\<open>DXFValueError\<close> before anything is sent to the entity factory.
  \<^verbatim>\<open>_add_quadrilateral\<close> calls \<^verbatim>\<open>new_entity\<close> first and starts the generator
  \<^verbatim>\<open>_four_points\<close> afterwards: with two points, in a new document, each of
  \<^verbatim>\<open>add_solid\<close>, \<^verbatim>\<open>add_trace\<close> and \<^verbatim>\<open>add_3dface\<close> raises \<^verbatim>\<open>DXFValueError\<close> after an
  entity without any point has been created.
\<close>

theorem quadrilateral_two_points_creates_entity:
  "add_solid [VVertex (Tuple2 0 0), VVertex (Tuple2 1 0)] None (new_layout ''AC1009'') =
     (Inl DXFValueError,
      \<lparr>dxfversion = ''AC1009'', blocks = Map.empty, heap = [Map.empty],
       trace = [Create_db_entry ''SOLID'' Map.empty]\<rparr>) \<and>
   add_trace [VVertex (Tuple2 0 0), VVertex (Tuple2 1 0)] None (new_layout ''AC1009'') =
     (Inl DXFValueError,
      \<lparr>dxfversion = ''AC1009'', blocks = Map.empty, heap = [Map.empty],
       trace = [Create_db_entry ''TRACE'' Map.empty]\<rparr>) \<and>
   add_3dface [VVertex (Tuple2 0 0), VVertex (Tuple2 1 0)] None (new_layout ''AC1009'') =
     (Inl DXFValueError,
      \<lparr>dxfversion = ''AC1009'', blocks = Map.empty, heap = [Map.empty],
       trace = [Create_db_entry ''3DFACE'' Map.empty]\<rparr>)"
  by (simp add: add_solid_def add_trace_def add_3dface_def add_quadrilateral_def
      dict_copy_def or_empty_def new_entity_def emit_def four_points_def deref_def
      new_layout_def)

subsection \<open>Version and value gates\<close>


lemma DXF2000_le_DXF2007: "DXF2000 \<le> DXF2007"
  by (simp add: DXF2000_def DXF2007_def)

lemma not_less_DXF2007: "\<not> v < DXF2007 \<Longrightarrow> \<not> v < DXF2000"
  using DXF2000_le_DXF2007 by (meson less_le_trans)

lemma add_acis_entiy_new:
  assumes "\<not> dxfversion s < DXF2000"
  shows "fst (add_acis_entiy name acis_data dxfattribs s) = Inr (length (trace s))"
    and "creation (snd (add_acis_entiy name acis_data dxfattribs s)) (length (trace s)) =
           Some (name, or_empty s dxfattribs)"
  using assms
  by (simp_all add: add_acis_entiy_def dict_copy_def new_entity_def emit_def creation_def
      deref_def or_empty_def nth_append Let_def split: option.splits)

lemma add_acis_entiy_creates:
  assumes "\<not> dxfversion s < DXF2000"
  shows "\<exists>entity s'. add_acis_entiy name acis_data dxfattribs s = (Inr entity, s') \<and>
           creation s' entity = Some (name, or_empty s dxfattribs)"
  using add_acis_entiy_new [OF assms, of name acis_data dxfattribs] by (metis prod.collapse)

text \<open>
  Claim C7. Each creation call of the SURFACE family (\<^verbatim>\<open>add_surface\<close>,
  \<^verbatim>\<open>add_extruded_surface\<close>, \<^verbatim>\<open>add_lofted_surface\<close>, \<^verbatim>\<open>add_revolved_surface\<close>,
  \<^verbatim>\<open>add_swept_surface\<close>) raises \<^verbatim>\<open>DXFVersionError\<close> and leaves the state as it was when
  the version of the document is below R2007; from R2007 on both version gates pass and
  the entity is created from the attributes of the caller.
\<close>

theorem surface_family_version_gate:
  "(dxfversion s < DXF2007 \<longrightarrow>
      add_surface acis_data dxfattribs s = (Inl DXFVersionError, s) \<and>
      add_extruded_surface acis_data dxfattribs s = (Inl DXFVersionError, s) \<and>
      add_lofted_surface acis_data dxfattribs s = (Inl DXFVersionError, s) \<and>
      add_revolved_surface acis_data dxfattribs s = (Inl DXFVersionError, s) \<and>
      add_swept_surface acis_data dxfattribs s = (Inl DXFVersionError, s)) \<and>
   (\<not> dxfversion s < DXF2007 \<longrightarrow>
      (\<exists>entity s'. add_surface acis_data dxfattribs s = (Inr entity, s') \<and>
         creation s' entity = Some (''SURFACE'', or_empty s dxfattribs)) \<and>
      (\<exists>entity s'. add_extruded_surface acis_data dxfattribs s = (Inr entity, s') \<and>
         creation s' entity = Some (''EXTRUDEDSURFACE'', or_empty s dxfattribs)) \<and>
      (\<exists>entity s'. add_lofted_surface acis_data dxfattribs s = (Inr entity, s') \<and>
         creation s' entity = Some (''LOFTEDSURFACE'', or_empty s dxfattribs)) \<and>
      (\<exists>entity s'. add_revolved_surface acis_data dxfattribs s = (Inr entity, s') \<and>
         creation s' entity = Some (''REVOLVEDSURFACE'', or_empty s dxfattribs)) \<and>
      (\<exists>entity s'. add_swept_surface acis_data dxfattribs s = (Inr entity, s') \<and>
         creation s' entity = Some (''SWEPTSURFACE'', or_empty s dxfattribs)))"
proof (intro conjI impI)
  assume old: "dxfversion s < DXF2007"
  show "add_surface acis_data dxfattribs s = (Inl DXFVersionError, s)"
    using old by (simp add: add_surface_def)
  show "add_extruded_surface acis_data dxfattribs s = (Inl DXFVersionError, s)"
    using old by (simp add: add_extruded_surface_def)
  show "add_lofted_surface acis_data dxfattribs s = (Inl DXFVersionError, s)"
    using old by (simp add: add_lofted_surface_def)
  show "add_revolved_surface acis_data dxfattribs s = (Inl DXFVersionError, s)"
    using old by (simp add: add_revolved_surface_def)
  show "add_swept_surface acis_data dxfattribs s = (Inl DXFVersionError, s)"
    using old by (simp add: add_swept_surface_def)
next
  assume new: "\<not> dxfversion s < DXF2007"
  then have r2000: "\<not> dxfversion s < DXF2000"
    by (rule not_less_DXF2007)
  show "\<exists>entity s'. add_surface acis_data dxfattribs s = (Inr entity, s') \<and>
         creation s' entity = Some (''SURFACE'', or_empty s dxfattribs)"
    using new add_acis_entiy_creates [OF r2000] by (simp add: add_surface_def)
  show "\<exists>entity s'. add_extruded_surface acis_data dxfattribs s = (Inr entity, s') \<and>
         creation s' entity = Some (''EXTRUDEDSURFACE'', or_empty s dxfattribs)"
    using new add_acis_entiy_creates [OF r2000] by (simp add: add_extruded_surface_def)
  show "\<exists>entity s'. add_lofted_surface acis_data dxfattribs s = (Inr entity, s') \<and>
         creation s' entity = Some (''LOFTEDSURFACE'', or_empty s dxfattribs)"
    using new add_acis_entiy_creates [OF r2000] by (simp add: add_lofted_surface_def)
  show "\<exists>entity s'. add_revolved_surface acis_data dxfattribs s = (Inr entity, s') \<and>
         creation s' entity = Some (''REVOLVEDSURFACE'', or_empty s dxfattribs)"
    using new add_acis_entiy_creates [OF r2000] by (simp add: add_revolved_surface_def)
  show "\<exists>entity s'. add_swept_surface acis_data dxfattribs s = (Inr entity, s') \<and>
         creation s' entity = Some (''SWEPTSURFACE'', or_empty s dxfattribs)"
    using new add_acis_entiy_creates [OF r2000] by (simp add: add_swept_surface_def)
qed

theorem surface_family_version_gate_witness:
  "dxfversion (new_layout ''AC1015'') < DXF2007 \<and>
   add_surface None None (new_layout ''AC1015'') = (Inl DXFVersionError, new_layout ''AC1015'') \<and>
   add_swept_surface None None (new_layout ''AC1015'') = (Inl DXFVersionError, new_layout ''AC1015'') \<and>
   \<not> dxfversion (new_layout ''AC1021'') < DXF2007 \<and>
   (\<exists>entity s'. add_surface None None (new_layout ''AC1021'') = (Inr entity, s') \<and>
      creation s' entity = Some (''SURFACE'', Map.empty))"
  using surface_family_version_gate [of "new_layout ''AC1015''" None None]
    surface_family_version_gate [of "new_layout ''AC1021''" None None]
  by (simp add: new_layout_def DXF2007_def or_empty_def)

text \<open>
  Claim C8 says that \<^verbatim>\<open>add_ellipse\<close> with a ratio above 1 always raises
  \<^verbatim>\<open>DXFValueError\<close>. The version gate comes first: in a document of version R12
  (\<^verbatim>\<open>AC1009\<close>) the call with ratio 2 raises \<^verbatim>\<open>DXFVersionError\<close>.
\<close>

theorem add_ellipse_old_version_counterexample:
  "add_ellipse (VVertex (Tuple2 0 0)) (VVertex (Tuple3 1 0 0)) 2 (VFloat 0) (VFloat 6) None
     (new_layout ''AC1009'') = (Inl DXFVersionError, new_layout ''AC1009'') \<and>
   fst (add_ellipse (VVertex (Tuple2 0 0)) (VVertex (Tuple3 1 0 0)) 2 (VFloat 0) (VFloat 6) None
     (new_layout ''AC1009'')) \<noteq> Inl DXFValueError"
  by (simp add: add_ellipse_def new_layout_def)

text \<open>
  Claim C8, amended. In a document of version R2000 (\<^verbatim>\<open>AC1015\<close>) or later,
  \<^verbatim>\<open>add_ellipse\<close> with a ratio above 1 raises \<^verbatim>\<open>DXFValueError\<close> and leaves the state as
  it was, and with ratio 1 it creates the ELLIPSE, for every centre, major axis, start
  and end parameter; in a document of an older version every call raises
  \<^verbatim>\<open>DXFVersionError\<close> before the ratio is looked at.
\<close>

theorem add_ellipse_ratio_gate:
  "(dxfversion s < ''AC1015'' \<longrightarrow>
      add_ellipse center major_axis ratio start_param end_param dxfattribs s =
        (Inl DXFVersionError, s)) \<and>
   (\<not> dxfversion s < ''AC1015'' \<and> 1 < ratio \<longrightarrow>
      add_ellipse center major_axis ratio start_param end_param dxfattribs s =
        (Inl DXFValueError, s)) \<and>
   (\<not> dxfversion s < ''AC1015'' \<longrightarrow>
      (\<exists>entity s' d.
         add_ellipse center major_axis 1 start_param end_param dxfattribs s = (Inr entity, s') \<and>
         creation s' entity = Some (''ELLIPSE'', d) \<and> d ''ratio'' = Some (VFloat 1)))"
  by (simp add: add_ellipse_def dict_copy_def new_entity_def emit_def creation_def deref_def
      setitem_def Let_def)

theorem add_ellipse_ratio_gate_witness:
  "\<not> dxfversion (new_layout ''AC1015'') < ''AC1015'' \<and> (1::real) < 2 \<and>
   add_ellipse (VVertex (Tuple2 0 0)) (VVertex (Tuple3 1 0 0)) 2 (VFloat 0) (VFloat 6) None
     (new_layout ''AC1015'') = (Inl DXFValueError, new_layout ''AC1015'') \<and>
   (\<exists>entity s' d.
      add_ellipse (VVertex (Tuple2 0 0)) (VVertex (Tuple3 1 0 0)) 1 (VFloat 0) (VFloat 6) None
        (new_layout ''AC1015'') = (Inr entity, s') \<and>
      creation s' entity = Some (''ELLIPSE'', d) \<and> d ''ratio'' = Some (VFloat 1)) \<and>
   dxfversion (new_layout ''AC1009'') < ''AC1015'' \<and>
   add_ellipse (VVertex (Tuple2 0 0)) (VVertex (Tuple3 1 0 0)) 1 (VFloat 0) (VFloat 6) None
     (new_layout ''AC1009'') = (Inl DXFVersionError, new_layout ''AC1009'')"
  using add_ellipse_ratio_gate [of "new_layout ''AC1015''" "VVertex (Tuple2 0 0)"
      "VVertex (Tuple3 1 0 0)" 2 "VFloat 0" "VFloat 6" None]
    add_ellipse_ratio_gate [of "new_layout ''AC1009''" "VVertex (Tuple2 0 0)"
      "VVertex (Tuple3 1 0 0)" 1 "VFloat 0" "VFloat 6" None]
  by (simp add: new_layout_def)

subsection \<open>The primitives, step by step\<close>

lemma emit_simps [simp]:
  "fst (emit e s) = length (trace s)"
  "trace (snd (emit e s)) = trace s @ [e]"
  "heap (snd (emit e s)) = heap s"
  "dxfversion (snd (emit e s)) = dxfversion s"
  "blocks (snd (emit e s)) = blocks s"
  "deref (snd (emit e s)) a = deref s a"
  by (simp_all add: emit_def deref_def)

lemma new_entity_simps [simp]:
  "fst (new_entity t d s) = length (trace s)"
  "trace (snd (new_entity t d s)) = trace s @ [Create_db_entry t (deref s d)]"
  "heap (snd (new_entity t d s)) = heap s"
  "dxfversion (snd (new_entity t d s)) = dxfversion s"
  "blocks (snd (new_entity t d s)) = blocks s"
  "deref (snd (new_entity t d s)) a = deref s a"
  by (simp_all add: new_entity_def)

lemma dict_copy_simps [simp]:
  "fst (dict_copy a s) = length (heap s)"
  "trace (snd (dict_copy a s)) = trace s"
  "heap (snd (dict_copy a s)) = heap s @ [or_empty s a]"
  "dxfversion (snd (dict_copy a s)) = dxfversion s"
  "blocks (snd (dict_copy a s)) = blocks s"
  "deref (snd (dict_copy a s)) b =
     (if b = length (heap s) then or_empty s a else deref s b)"
  by (simp_all add: dict_copy_def deref_def nth_append)

lemma dict_new_simps [simp]:
  "fst (dict_new m s) = length (heap s)"
  "trace (snd (dict_new m s)) = trace s"
  "heap (snd (dict_new m s)) = heap s @ [m]"
  "dxfversion (snd (dict_new m s)) = dxfversion s"
  "blocks (snd (dict_new m s)) = blocks s"
  "deref (snd (dict_new m s)) b = (if b = length (heap s) then m else deref s b)"
  by (simp_all add: dict_new_def deref_def nth_append)

lemma setitem_simps [simp]:
  "trace (setitem d k v s) = trace s"
  "heap (setitem d k v s) = (heap s)[d := (deref s d)(k \<mapsto> v)]"
  "dxfversion (setitem d k v s) = dxfversion s"
  "blocks (setitem d k v s) = blocks s"
  "deref (setitem d k v s) b =
     (if b = d \<and> d < length (heap s) then (deref s d)(k \<mapsto> v) else deref s b)"
  by (simp_all add: setitem_def deref_def)

lemma pop_simps [simp]:
  "fst (pop d k dflt s) = getitem d k dflt s"
  "trace (snd (pop d k dflt s)) = trace s"
  "heap (snd (pop d k dflt s)) = (heap s)[d := (deref s d)(k := None)]"
  "dxfversion (snd (pop d k dflt s)) = dxfversion s"
  "blocks (snd (pop d k dflt s)) = blocks s"
  "deref (snd (pop d k dflt s)) b =
     (if b = d \<and> d < length (heap s) then (deref s d)(k := None) else deref s b)"
  by (simp_all add: pop_def deref_def)

lemma setdefault_simps [simp]:
  "trace (setdefault d k v s) = trace s"
  "length (heap (setdefault d k v s)) = length (heap s)"
  "dxfversion (setdefault d k v s) = dxfversion s"
  "blocks (setdefault d k v s) = blocks s"
  by (simp_all add: setdefault_def split: option.splits)


lemma or_empty_simps [simp]:
  "or_empty (snd (emit e s)) r = or_empty s r"
  "or_empty (snd (new_entity t d s)) r = or_empty s r"
  "valid_ref s r \<Longrightarrow> or_empty (snd (dict_new m s)) r = or_empty s r"
  "valid_ref s r \<Longrightarrow> or_empty (snd (dict_copy a s)) r = or_empty s r"
  by (auto simp add: or_empty_def valid_ref_def split: option.splits)

lemma valid_ref_simps [simp]:
  "valid_ref (snd (emit e s)) r = valid_ref s r"
  "valid_ref (snd (new_entity t d s)) r = valid_ref s r"
  "valid_ref s r \<Longrightarrow> valid_ref (snd (dict_new m s)) r"
  "valid_ref s r \<Longrightarrow> valid_ref (snd (dict_copy a s)) r"
  by (auto simp add: valid_ref_def split: option.splits)

lemma updated_append: "updated (xs @ ys) = updated xs @ updated ys"
  by (induction xs rule: updated.induct) simp_all

lemmas prims = dict_copy_def dict_new_def or_empty_def new_entity_def emit_def creation_def
      deref_def setitem_def getitem_def pop_def setdefault_def int_or_def Let_def nth_append

subsection \<open>POLYLINE flags and the size of a polymesh\<close>

lemma add_polyline3d_flags:
  assumes "deref s a ''flags'' = Some (VInt f)"
  shows "fst (add_polyline3d points (Some a) s) = Inr (length (trace s))"
    and "\<exists>d. creation (snd (add_polyline3d points (Some a) s)) (length (trace s)) = Some (''POLYLINE'', d)
           \<and> d ''flags'' = Some (VInt (f OR POLYLINE_3D_POLYLINE))"
  using assms
  by (simp_all add: add_polyline3d_def add_polyline2d_def prims split: if_splits)

lemma add_polymesh_flags:
  assumes "deref s a ''flags'' = Some (VInt f)"
  shows "fst (add_polymesh size' (Some a) s) = Inr (length (trace s))"
    and "\<exists>d. creation (snd (add_polymesh size' (Some a) s)) (length (trace s)) = Some (''POLYLINE'', d)
           \<and> d ''flags'' = Some (VInt (f OR POLYLINE_3D_POLYMESH))"
  using assms
  by (simp_all add: add_polymesh_def prims split: if_splits)

lemma add_polyface_flags:
  assumes "deref s a ''flags'' = Some (VInt f)"
  shows "fst (add_polyface (Some a) s) = Inr (length (trace s))"
    and "\<exists>d. creation (snd (add_polyface (Some a) s)) (length (trace s)) = Some (''POLYLINE'', d)
           \<and> d ''flags'' = Some (VInt (f OR POLYLINE_POLYFACE))"
  using assms
  by (simp_all add: add_polyface_def prims split: if_splits)

text \<open>
  Claim C4. When the \<^verbatim>\<open>dxfattribs\<close> of the caller hold an integer \<open>f\<close> under \<^verbatim>\<open>'flags'\<close>,
  the POLYLINE entity created by \<^verbatim>\<open>add_polyline3d\<close>, \<^verbatim>\<open>add_polymesh\<close> and
  \<^verbatim>\<open>add_polyface\<close> has \<open>f\<close> OR the mode bit of the method as its flags: a bit of the
  result is set exactly when it is set in \<open>f\<close> or in the mode bit, so every bit of the
  caller stays and the mode bit is set.
\<close>

theorem polyline_flags_or:
  assumes "deref s a ''flags'' = Some (VInt f)"
  shows
   "(\<exists>entity s' d. add_polyline3d points (Some a) s = (Inr entity, s') \<and>
       creation s' entity = Some (''POLYLINE'', d) \<and>
       d ''flags'' = Some (VInt (f OR POLYLINE_3D_POLYLINE))) \<and>
    (\<exists>entity s' d. add_polymesh size' (Some a) s = (Inr entity, s') \<and>
       creation s' entity = Some (''POLYLINE'', d) \<and>
       d ''flags'' = Some (VInt (f OR POLYLINE_3D_POLYMESH))) \<and>
    (\<exists>entity s' d. add_polyface (Some a) s = (Inr entity, s') \<and>
       creation s' entity = Some (''POLYLINE'', d) \<and>
       d ''flags'' = Some (VInt (f OR POLYLINE_POLYFACE))) \<and>
    (\<forall>n. bit (f OR POLYLINE_3D_POLYLINE) n = (bit f n \<or> bit POLYLINE_3D_POLYLINE n)) \<and>
    (\<forall>n. bit (f OR POLYLINE_3D_POLYMESH) n = (bit f n \<or> bit POLYLINE_3D_POLYMESH n)) \<and>
    (\<forall>n. bit (f OR POLYLINE_POLYFACE) n = (bit f n \<or> bit POLYLINE_POLYFACE n))"
proof (intro conjI)
  show "\<exists>entity s' d. add_polyline3d points (Some a) s = (Inr entity, s') \<and>
       creation s' entity = Some (''POLYLINE'', d) \<and>
       d ''flags'' = Some (VInt (f OR POLYLINE_3D_POLYLINE))"
    using add_polyline3d_flags [OF assms, of points] by (metis prod.collapse)
  show "\<exists>entity s' d. add_polymesh size' (Some a) s = (Inr entity, s') \<and>
       creation s' entity = Some (''POLYLINE'', d) \<and>
       d ''flags'' = Some (VInt (f OR POLYLINE_3D_POLYMESH))"
    using add_polymesh_flags [OF assms, of size'] by (metis prod.collapse)
  show "\<exists>entity s' d. add_polyface (Some a) s = (Inr entity, s') \<and>
       creation s' entity = Some (''POLYLINE'', d) \<and>
       d ''flags'' = Some (VInt (f OR POLYLINE_POLYFACE))"
    using add_polyface_flags [OF assms] by (metis prod.collapse)
qed (simp_all add: bit_or_iff)

theorem polyline_flags_or_witness:
  "deref ((new_layout ''AC1009'')\<lparr>heap := [[''flags'' \<mapsto> VInt 1]]\<rparr>) 0 ''flags'' = Some (VInt 1) \<and>
   (\<exists>entity s' d.
      add_polyline3d [] (Some 0) ((new_layout ''AC1009'')\<lparr>heap := [[''flags'' \<mapsto> VInt 1]]\<rparr>) =
        (Inr entity, s') \<and>
      creation s' entity = Some (''POLYLINE'', d) \<and> d ''flags'' = Some (VInt 9)) \<and>
   (\<exists>entity s' d.
      add_polymesh (3, 3) (Some 0) ((new_layout ''AC1009'')\<lparr>heap := [[''flags'' \<mapsto> VInt 1]]\<rparr>) =
        (Inr entity, s') \<and>
      creation s' entity = Some (''POLYLINE'', d) \<and> d ''flags'' = Some (VInt 17)) \<and>
   (\<exists>entity s' d.
      add_polyface (Some 0) ((new_layout ''AC1009'')\<lparr>heap := [[''flags'' \<mapsto> VInt 1]]\<rparr>) =
        (Inr entity, s') \<and>
      creation s' entity = Some (''POLYLINE'', d) \<and> d ''flags'' = Some (VInt 65))"
  using polyline_flags_or [of "(new_layout ''AC1009'')\<lparr>heap := [[''flags'' \<mapsto> VInt 1]]\<rparr>" 0 1
      "[]" "(3, 3)"]
  by (simp add: new_layout_def deref_def POLYLINE_3D_POLYLINE_def POLYLINE_3D_POLYMESH_def
      POLYLINE_POLYFACE_def)

lemmas prims0 = dict_copy_def dict_new_def new_entity_def emit_def creation_def
      deref_def setitem_def getitem_def pop_def setdefault_def Let_def nth_append

lemma int_or_is_int:
  assumes "case m ''flags'' of None \<Rightarrow> True | Some v \<Rightarrow> is_int v"
  shows "\<exists>g. int_or (case m ''flags'' of None \<Rightarrow> VInt 0 | Some v \<Rightarrow> v) c = Inr (VInt g)"
proof (cases "m ''flags''")
  case None
  then show ?thesis by (simp add: int_or_def)
next
  case (Some v)
  with assms have "is_int v" by simp
  then show ?thesis using Some by (cases v) (simp_all add: int_or_def)
qed

lemma add_polymesh_new:
  assumes "case or_empty s dxfattribs ''flags'' of None \<Rightarrow> True | Some v \<Rightarrow> is_int v"
  shows "fst (add_polymesh (m, n) dxfattribs s) = Inr (length (trace s))"
    and "\<exists>d m_close n_close.
           creation (snd (add_polymesh (m, n) dxfattribs s)) (length (trace s)) = Some (''POLYLINE'', d) \<and>
           d ''m_count'' = Some (VInt (max m 2)) \<and> d ''n_count'' = Some (VInt (max n 2)) \<and>
           trace (snd (add_polymesh (m, n) dxfattribs s)) = trace s @
             [Create_db_entry ''POLYLINE'' d,
              Invoke (length (trace s)) ''append_vertices''
                [VList (replicate (nat (max m 2 * max n 2)) (VVertex (Tuple3 0 0 0)))],
              Invoke (length (trace s)) ''close'' [m_close, n_close],
              Invoke (length (trace s)) ''cast'' []]"
proof -
  obtain g where g: "int_or (case or_empty s dxfattribs ''flags'' of None \<Rightarrow> VInt 0 | Some v \<Rightarrow> v)
      POLYLINE_3D_POLYMESH = Inr (VInt g)"
    using int_or_is_int [of "or_empty s dxfattribs" POLYLINE_3D_POLYMESH] assms by blast
  show "fst (add_polymesh (m, n) dxfattribs s) = Inr (length (trace s))"
    using g by (simp add: add_polymesh_def prims0)
  show "\<exists>d m_close n_close.
           creation (snd (add_polymesh (m, n) dxfattribs s)) (length (trace s)) = Some (''POLYLINE'', d) \<and>
           d ''m_count'' = Some (VInt (max m 2)) \<and> d ''n_count'' = Some (VInt (max n 2)) \<and>
           trace (snd (add_polymesh (m, n) dxfattribs s)) = trace s @
             [Create_db_entry ''POLYLINE'' d,
              Invoke (length (trace s)) ''append_vertices''
                [VList (replicate (nat (max m 2 * max n 2)) (VVertex (Tuple3 0 0 0)))],
              Invoke (length (trace s)) ''close'' [m_close, n_close],
              Invoke (length (trace s)) ''cast'' []]"
    using g by (simp add: add_polymesh_def prims0)
qed

text \<open>
  Claim C10. For every size \<open>(m, n)\<close>, \<^verbatim>\<open>add_polymesh\<close> creates a POLYLINE whose
  \<^verbatim>\<open>m_count\<close> is \<open>max m 2\<close> and whose \<^verbatim>\<open>n_count\<close> is \<open>max n 2\<close>, and the one call of
  \<^verbatim>\<open>append_vertices\<close> on it passes exactly \<open>max m 2 * max n 2\<close> vertices, each
  \<open>(0, 0, 0)\<close>. (The flags of the caller, when given, are an integer.)
\<close>

theorem add_polymesh_clamps_size:
  assumes "case or_empty s dxfattribs ''flags'' of None \<Rightarrow> True | Some v \<Rightarrow> is_int v"
  shows "\<exists>entity s' d m_close n_close.
           add_polymesh (m, n) dxfattribs s = (Inr entity, s') \<and>
           creation s' entity = Some (''POLYLINE'', d) \<and>
           d ''m_count'' = Some (VInt (max m 2)) \<and> d ''n_count'' = Some (VInt (max n 2)) \<and>
           trace s' = trace s @
             [Create_db_entry ''POLYLINE'' d,
              Invoke entity ''append_vertices''
                [VList (replicate (nat (max m 2 * max n 2)) (VVertex (Tuple3 0 0 0)))],
              Invoke entity ''close'' [m_close, n_close],
              Invoke entity ''cast'' []]"
  using add_polymesh_new [OF assms, of m n] by (metis prod.collapse)

theorem add_polymesh_clamps_size_witness:
  "(case or_empty (new_layout ''AC1009'') None ''flags'' of None \<Rightarrow> True | Some v \<Rightarrow> is_int v) \<and>
   (\<exists>entity s' d m_close n_close.
      add_polymesh (1, 3) None (new_layout ''AC1009'') = (Inr entity, s') \<and>
      creation s' entity = Some (''POLYLINE'', d) \<and>
      d ''m_count'' = Some (VInt 2) \<and> d ''n_count'' = Some (VInt 3) \<and>
      trace s' =
        [Create_db_entry ''POLYLINE'' d,
         Invoke entity ''append_vertices''
           [VList [VVertex (Tuple3 0 0 0), VVertex (Tuple3 0 0 0), VVertex (Tuple3 0 0 0),
                   VVertex (Tuple3 0 0 0), VVertex (Tuple3 0 0 0), VVertex (Tuple3 0 0 0)]],
         Invoke entity ''close'' [m_close, n_close],
         Invoke entity ''cast'' []])"
proof -
  have h: "case or_empty (new_layout ''AC1009'') None ''flags'' of None \<Rightarrow> True | Some v \<Rightarrow> is_int v"
    by (simp add: or_empty_def)
  have r: "replicate (nat 6) (VVertex (Tuple3 0 0 0)) =
      [VVertex (Tuple3 0 0 0), VVertex (Tuple3 0 0 0), VVertex (Tuple3 0 0 0),
       VVertex (Tuple3 0 0 0), VVertex (Tuple3 0 0 0), VVertex (Tuple3 0 0 0)]"
    by code_simp
  show ?thesis
    using h add_polymesh_clamps_size [OF h, of 1 3] r by (simp add: new_layout_def)
qed

subsection \<open>Linear dimensions\<close>

lemma add_linear_dim_new:
  assumes "valid_ref s dxfattribs"
  shows "\<exists>style. fst (add_linear_dim base p1 p2 location text angle text_rotation dimstyle override
             dxfattribs s) = Inr style"
    and "\<exists>d. updated (trace (snd (add_linear_dim base p1 p2 location text angle text_rotation dimstyle
             override dxfattribs s))) = updated (trace s) @ [(length (trace s), d)] \<and>
           d ''text_rotation'' =
             (case text_rotation of
                None \<Rightarrow> or_empty s dxfattribs ''text_rotation''
              | Some r \<Rightarrow> Some (VFloat r))"
  using assms
  by (simp_all add: add_linear_dim_def split_def Let_def updated_append split: option.splits)

text \<open>
  Claim C5. The attribute set that \<^verbatim>\<open>add_linear_dim\<close> sends to the DIMENSION entity
  holds \<^verbatim>\<open>text_rotation\<close> as a float whenever the argument \<^verbatim>\<open>text_rotation\<close> is given,
  whatever the angle and the other arguments are; when the argument is \<^verbatim>\<open>None\<close> the
  method sets no \<^verbatim>\<open>text_rotation\<close>: the entry is the one of the caller's \<^verbatim>\<open>dxfattribs\<close>,
  absent when the caller gave none.
\<close>

theorem linear_dim_text_rotation:
  assumes "valid_ref s dxfattribs"
  shows "\<exists>style s' d.
     add_linear_dim base p1 p2 location text angle text_rotation dimstyle override dxfattribs s =
       (Inr style, s') \<and>
     updated (trace s') = updated (trace s) @ [(length (trace s), d)] \<and>
     d ''text_rotation'' =
       (case text_rotation of
          None \<Rightarrow> or_empty s dxfattribs ''text_rotation''
        | Some r \<Rightarrow> Some (VFloat r))"
  using add_linear_dim_new [OF assms, of base p1 p2 location "text" angle text_rotation dimstyle
      override]
  by (metis prod.collapse)

theorem linear_dim_text_rotation_witness:
  "valid_ref (new_layout ''AC1009'') None \<and>
   (\<exists>style s' d.
      add_linear_dim (Tuple2 0 5) (Tuple2 0 0) (Tuple2 10 0) None (VStr ''<>'') 90 (Some 30)
        (VStr ''EZDXF'') None None (new_layout ''AC1009'') = (Inr style, s') \<and>
      updated (trace s') = [(0, d)] \<and> d ''text_rotation'' = Some (VFloat 30)) \<and>
   (\<exists>style s' d.
      add_linear_dim (Tuple2 0 5) (Tuple2 0 0) (Tuple2 10 0) None (VStr ''<>'') 90 None
        (VStr ''EZDXF'') None None (new_layout ''AC1009'') = (Inr style, s') \<and>
      updated (trace s') = [(0, d)] \<and> d ''text_rotation'' = None)"
proof -
  have v: "valid_ref (new_layout ''AC1009'') None"
    by (simp add: valid_ref_def)
  show ?thesis
    using v
      linear_dim_text_rotation [OF v, of "Tuple2 0 5" "Tuple2 0 0" "Tuple2 10 0" None "VStr ''<>''"
        90 "Some 30" "VStr ''EZDXF''" None]
      linear_dim_text_rotation [OF v, of "Tuple2 0 5" "Tuple2 0 0" "Tuple2 10 0" None "VStr ''<>''"
        90 None "VStr ''EZDXF''" None]
    by (simp add: new_layout_def or_empty_def)
qed

subsection \<open>Auto block references\<close>

lemma attribs_added_append: "attribs_added (xs @ ys) = attribs_added xs @ attribs_added ys"
  by (induction xs rule: attribs_added.induct) simp_all

lemma unpack_get_dxfattribs:
  assumes "attdef ''tag'' = Some (VStr t)" "attdef ''insert'' = Some i"
  shows "unpack values (get_dxfattribs attdef) =
     Inr (VStr t, VStr (case values t of None \<Rightarrow> [] | Some v \<Rightarrow> v), i,
          attdef(''prompt'' := None, ''handle'' := None, ''tag'' := None, ''insert'' := None))"
  using assms by (simp add: unpack_def get_dxfattribs_def values_get_def split: option.splits)

lemma autofill_all:
  assumes "list_all (\<lambda>attdef. (\<exists>t. attdef ''tag'' = Some (VStr t)) \<and> attdef ''insert'' \<noteq> None)
             attdefs"
  shows "fst (autofill values blockref attdefs s) = Inr () \<and>
         attribs_added (trace (snd (autofill values blockref attdefs s))) =
           attribs_added (trace s) @ map (attrib_for values blockref) attdefs"
  using assms
proof (induction attdefs arbitrary: s)
  case Nil
  then show ?case by simp
next
  case (Cons attdef attdefs)
  then obtain t i where ti: "attdef ''tag'' = Some (VStr t)" "attdef ''insert'' = Some i"
    by auto
  have rest: "list_all (\<lambda>attdef. (\<exists>t. attdef ''tag'' = Some (VStr t)) \<and> attdef ''insert'' \<noteq> None)
      attdefs"
    using Cons.prems by simp
  show ?case
    using Cons.IH [OF rest] ti
    by (simp add: unpack_get_dxfattribs [OF ti] attribs_added_append attrib_for_def)
qed

lemma add_blockref_new:
  "\<exists>entity. fst (add_blockref name ins dxfattribs s) = Inr entity"
  "attribs_added (trace (snd (add_blockref name ins dxfattribs s))) = attribs_added (trace s)"
  by (simp_all add: add_blockref_def split_def Let_def attribs_added_append)

lemma add_auto_blockref_new:
  assumes "blocks s name = Some attdefs"
    and "list_all (\<lambda>attdef. (\<exists>t. attdef ''tag'' = Some (VStr t)) \<and> attdef ''insert'' \<noteq> None)
           attdefs"
  shows "\<exists>entity. fst (add_auto_blockref name ins values dxfattribs s) = Inr entity"
    and "attribs_added (trace (snd (add_auto_blockref name ins values dxfattribs s))) =
           attribs_added (trace s) @ map (attrib_for values (Suc (length (trace s)))) attdefs"
proof -
  let ?s3 = "snd (emit (Block_add_blockref (length (trace s)) (VStr name) (Tuple2 0 0))
                (snd (emit New_anonymous_block (snd (dict_copy dxfattribs s)))))"
  let ?r = "autofill values (Suc (length (trace s))) attdefs ?s3"
  have fill: "fst ?r = Inr ()"
    "attribs_added (trace (snd ?r)) =
       attribs_added (trace ?s3) @ map (attrib_for values (Suc (length (trace s)))) attdefs"
    using autofill_all [OF assms(2), of "values" "Suc (length (trace s))" ?s3] by simp_all
  have unfold: "add_auto_blockref name ins values dxfattribs s =
      add_blockref (VAttr (length (trace s)) ''name'') ins (Some (length (heap s))) (snd ?r)"
    using assms(1) fill(1) by (simp add: add_auto_blockref_def split_def Let_def)
  show "\<exists>entity. fst (add_auto_blockref name ins values dxfattribs s) = Inr entity"
    unfolding unfold by (rule add_blockref_new)
  show "attribs_added (trace (snd (add_auto_blockref name ins values dxfattribs s))) =
           attribs_added (trace s) @ map (attrib_for values (Suc (length (trace s)))) attdefs"
    unfolding unfold by (simp add: add_blockref_new fill(2) attribs_added_append)
qed

lemma attrib_for_related:
  assumes "list_all (\<lambda>attdef. (\<exists>t. attdef ''tag'' = Some (VStr t)) \<and> attdef ''insert'' \<noteq> None)
             attdefs"
  shows "list_all2
     (\<lambda>attdef (blockref, tag, text, ins, d).
        blockref = b \<and> attdef ''tag'' = Some tag \<and> attdef ''insert'' = Some ins \<and>
        (\<exists>t. tag = VStr t \<and> text = VStr (case values t of None \<Rightarrow> [] | Some v \<Rightarrow> v)) \<and>
        d = attdef(''prompt'' := None, ''handle'' := None, ''tag'' := None, ''insert'' := None) \<and>
        d ''prompt'' = None \<and> d ''handle'' = None)
     attdefs (map (attrib_for values b) attdefs)"
  using assms by (induction attdefs) (auto simp add: attrib_for_def)

text \<open>
  Claim C6. For a block whose attribute definitions each have a string as tag and an
  insert point, \<^verbatim>\<open>add_auto_blockref\<close> attaches one attribute per attribute definition, in
  order, to the block reference placed in the anonymous block: its attribute set is the
  one of the definition without \<^verbatim>\<open>prompt\<close> and \<^verbatim>\<open>handle\<close> (and without \<^verbatim>\<open>tag\<close> and
  \<^verbatim>\<open>insert\<close>, which travel as arguments), its text is the entry of \<^verbatim>\<open>values\<close> under the
  tag, the empty string when there is none, and its insert point is that of the
  definition.
\<close>

theorem auto_blockref_attribs:
  assumes "blocks s name = Some attdefs"
    and "list_all (\<lambda>attdef. (\<exists>t. attdef ''tag'' = Some (VStr t)) \<and> attdef ''insert'' \<noteq> None)
           attdefs"
  shows "\<exists>entity s' added.
     add_auto_blockref name ins values dxfattribs s = (Inr entity, s') \<and>
     attribs_added (trace s') = attribs_added (trace s) @ added \<and>
     list_all2
       (\<lambda>attdef (blockref, tag, text, ins, d).
          blockref = Suc (length (trace s)) \<and>
          attdef ''tag'' = Some tag \<and> attdef ''insert'' = Some ins \<and>
          (\<exists>t. tag = VStr t \<and> text = VStr (case values t of None \<Rightarrow> [] | Some v \<Rightarrow> v)) \<and>
          d = attdef(''prompt'' := None, ''handle'' := None, ''tag'' := None, ''insert'' := None) \<and>
          d ''prompt'' = None \<and> d ''handle'' = None)
       attdefs added"
proof -
  obtain entity where e: "fst (add_auto_blockref name ins values dxfattribs s) = Inr entity"
    using add_auto_blockref_new(1) [OF assms] by blast
  have 1: "add_auto_blockref name ins values dxfattribs s =
      (Inr entity, snd (add_auto_blockref name ins values dxfattribs s))"
    using e by (simp add: prod_eq_iff)
  show ?thesis
    using 1 add_auto_blockref_new(2) [OF assms]
      attrib_for_related [OF assms(2), of "Suc (length (trace s))" "values"]
    by blast
qed

theorem auto_blockref_attribs_witness:
  "blocks ((new_layout ''AC1009'')\<lparr>blocks :=
       [''B'' \<mapsto> [[''tag'' \<mapsto> VStr ''T'', ''insert'' \<mapsto> VVertex (Tuple2 1 2),
                    ''prompt'' \<mapsto> VStr ''name?'', ''handle'' \<mapsto> VStr ''2A'',
                    ''height'' \<mapsto> VFloat 1]]]\<rparr>) ''B'' =
     Some [[''tag'' \<mapsto> VStr ''T'', ''insert'' \<mapsto> VVertex (Tuple2 1 2),
            ''prompt'' \<mapsto> VStr ''name?'', ''handle'' \<mapsto> VStr ''2A'',
            ''height'' \<mapsto> VFloat 1]] \<and>
   list_all (\<lambda>attdef. (\<exists>t. attdef ''tag'' = Some (VStr t)) \<and> attdef ''insert'' \<noteq> None)
     [[''tag'' \<mapsto> VStr ''T'', ''insert'' \<mapsto> VVertex (Tuple2 1 2),
       ''prompt'' \<mapsto> VStr ''name?'', ''handle'' \<mapsto> VStr ''2A'',
       ''height'' \<mapsto> VFloat 1]] \<and>
   (\<exists>entity s' d.
      add_auto_blockref ''B'' (VVertex (Tuple2 0 0)) [''T'' \<mapsto> ''hello''] None
        ((new_layout ''AC1009'')\<lparr>blocks :=
           [''B'' \<mapsto> [[''tag'' \<mapsto> VStr ''T'', ''insert'' \<mapsto> VVertex (Tuple2 1 2),
                        ''prompt'' \<mapsto> VStr ''name?'', ''handle'' \<mapsto> VStr ''2A'',
                        ''height'' \<mapsto> VFloat 1]]]\<rparr>) = (Inr entity, s') \<and>
      attribs_added (trace s') = [(1, VStr ''T'', VStr ''hello'', VVertex (Tuple2 1 2), d)] \<and>
      d ''prompt'' = None \<and> d ''handle'' = None \<and> d ''height'' = Some (VFloat 1))"
proof -
  let ?attdef = "[''tag'' \<mapsto> VStr ''T'', ''insert'' \<mapsto> VVertex (Tuple2 1 2),
                  ''prompt'' \<mapsto> VStr ''name?'', ''handle'' \<mapsto> VStr ''2A'',
                  ''height'' \<mapsto> VFloat 1]"
  let ?s = "(new_layout ''AC1009'')\<lparr>blocks := [''B'' \<mapsto> [?attdef]]\<rparr>"
  have h1: "blocks ?s ''B'' = Some [?attdef]"
    by simp
  have h2: "list_all (\<lambda>attdef. (\<exists>t. attdef ''tag'' = Some (VStr t)) \<and> attdef ''insert'' \<noteq> None)
      [?attdef]"
    by simp
  show ?thesis
    using h1 h2
      auto_blockref_attribs [OF h1 h2, of "VVertex (Tuple2 0 0)" "[''T'' \<mapsto> ''hello'']" None]
    by (auto simp add: new_layout_def list_all2_Cons1)
qed

text \<open>
  A tag that is a list makes the lookup in \<^verbatim>\<open>values\<close> raise \<^verbatim>\<open>TypeError\<close>, after the
  anonymous block and its block reference have been requested and before any
  attribute is attached.
\<close>

lemma auto_blockref_unhashable_tag:
  "fst (add_auto_blockref ''B'' (VVertex (Tuple2 0 0)) Map.empty None
     ((new_layout ''AC1009'')\<lparr>blocks :=
        [''B'' \<mapsto> [[''tag'' \<mapsto> VList [], ''insert'' \<mapsto> VVertex (Tuple2 1 2)]]]\<rparr>)) =
   Inl TypeError"
  by (simp add: add_auto_blockref_def split_def Let_def unpack_def get_dxfattribs_def
      values_get_def new_layout_def)

subsection \<open>Aligned dimensions\<close>

lemma Vector_idem: "Vector (Vector v) = Vector v"
  by (cases v) simp_all

lemma Vector_coords: "Vector v = Vec3 (vx v) (vy v) (vz v)"
  by (cases v) simp_all

lemma magnitude_eq_0: "magnitude v = 0 \<longleftrightarrow> vx v = 0 \<and> vy v = 0 \<and> vz v = 0"
proof -
  have "vx v * vx v + vy v * vy v + vz v * vz v = 0 \<longleftrightarrow> vx v = 0 \<and> vy v = 0 \<and> vz v = 0"
    by (metis add_nonneg_eq_0_iff add_nonneg_nonneg mult_eq_0_iff zero_le_square add.right_neutral)
  then show ?thesis
    by (simp add: magnitude_def)
qed

lemma magnitude_orthogonal_direction:
  assumes "Vector p1 \<noteq> Vector p2"
  shows "magnitude (orthogonal (vsub (Vector p2) (Vector p1))) \<noteq> 0"
  using assms by (auto simp add: magnitude_eq_0 orthogonal_def vsub_def Vector_coords)

text \<open>
  Claim C2. For measurement points \<open>p1 \<noteq> p2\<close> (as vectors) and every distance,
  \<^verbatim>\<open>add_aligned_dim\<close> is \<^verbatim>\<open>add_linear_dim\<close> called with the same points, text, style,
  override and attributes, with the orthogonal of \<open>p2 - p1\<close> normalised to the distance
  as base and the angle of \<open>p2 - p1\<close> in degrees as angle: the same result and the same
  calls to the collaborators.
\<close>

theorem aligned_dim_is_linear_dim:
  assumes "Vector p1 \<noteq> Vector p2"
  shows "\<exists>base.
     normalize (orthogonal (vsub (Vector p2) (Vector p1))) distance = Inr base \<and>
     add_aligned_dim p1 p2 distance text dimstyle override dxfattribs s =
       add_linear_dim base p1 p2 None text (angle_deg (vsub (Vector p2) (Vector p1))) None
         dimstyle override dxfattribs s"
proof -
  let ?direction = "vsub (Vector p2) (Vector p1)"
  obtain base where base: "normalize (orthogonal ?direction) distance = Inr base"
    using magnitude_orthogonal_direction [OF assms] by (simp add: normalize_def)
  have "add_aligned_dim p1 p2 distance text dimstyle override dxfattribs s =
      add_linear_dim base (Vector p1) (Vector p2) None text (angle_deg ?direction) None
        dimstyle override dxfattribs s"
    using base by (simp add: add_aligned_dim_def Let_def)
  also have "\<dots> = add_linear_dim base p1 p2 None text (angle_deg ?direction) None
        dimstyle override dxfattribs s"
    by (simp only: add_linear_dim_def Vector_idem)
  finally show ?thesis
    using base by blast
qed

lemma sqrt_100: "sqrt 100 = 10"
  using real_sqrt_abs2 [of 10] by simp

theorem aligned_dim_is_linear_dim_witness:
  "Vector (Tuple2 0 0) \<noteq> Vector (Tuple2 10 0) \<and>
   normalize (orthogonal (vsub (Vector (Tuple2 10 0)) (Vector (Tuple2 0 0)))) 5 = Inr (Vec3 0 5 0) \<and>
   angle_deg (vsub (Vector (Tuple2 10 0)) (Vector (Tuple2 0 0))) = 0 \<and>
   add_aligned_dim (Tuple2 0 0) (Tuple2 10 0) 5 (VStr ''<>'') (VStr ''EZDXF'') None None
       (new_layout ''AC1009'') =
     add_linear_dim (Vec3 0 5 0) (Tuple2 0 0) (Tuple2 10 0) None (VStr ''<>'') 0 None
       (VStr ''EZDXF'') None None (new_layout ''AC1009'')"
proof -
  have h: "Vector (Tuple2 0 0) \<noteq> Vector (Tuple2 10 0)"
    by simp
  have n: "normalize (orthogonal (vsub (Vector (Tuple2 10 0)) (Vector (Tuple2 0 0)))) 5 =
      Inr (Vec3 0 5 0)"
    by (simp add: normalize_def orthogonal_def vsub_def magnitude_def sqrt_100)
  have a: "angle_deg (vsub (Vector (Tuple2 10 0)) (Vector (Tuple2 0 0))) = 0"
    by (simp add: angle_deg_def atan2_def vsub_def)
  show ?thesis
    using h n a
      aligned_dim_is_linear_dim [OF h, of 5 "VStr ''<>''" "VStr ''EZDXF''" None None
        "new_layout ''AC1009''"]
    by simp
qed

subsection \<open>The dictionary of the caller\<close>

text \<open>
  Every method that assembles attributes itself writes to the dictionary it has
  allocated, so the part of the store that exists before a call is the same after it.
  The collaborators of these methods receive the copy only; they are not given a
  reference to the dictionary of the caller.
\<close>

lemma setdefault_heap [simp]:
  "n \<le> d \<Longrightarrow> take n (heap (setdefault d k v s)) = take n (heap s)"
  by (simp add: setdefault_def split: option.splits)













































end
